theory Spec2Isabelle
  imports Main
begin

section \<open>The Flutter build wrapper \<^verbatim>\<open>build.py\<close>\<close>

text \<open>
  The program is one Python module with two functions, \<^verbatim>\<open>build_flutter\<close> and
  \<^verbatim>\<open>main\<close>. It composes an argument vector for the external \<^verbatim>\<open>flutter\<close>
  tool, prints it, runs it with \<^verbatim>\<open>subprocess.run(cmd, check=True)\<close> and prints
  a confirmation.

  Conventions of the embedding.
  \<^item> A Python \<^verbatim>\<open>str\<close> is a \<^typ>\<open>string\<close> holding the UTF-8 bytes of the text. The
    program only compares strings for equality and concatenates them, and both commute
    with the encoding. The literals of the source that are not ASCII are written byte
    by byte.
  \<^item> What the program does to the outside is a trace of events, oldest first: one
    \<open>Stdout\<close> event for each call of \<^verbatim>\<open>print\<close> and one \<open>Spawn\<close> event for each
    call of \<^verbatim>\<open>subprocess.run\<close>. A function of the source takes the trace so far and
    returns the extended one.
  \<^item> An exception is a value: a function returns \<open>Inl e\<close> when it raises \<open>e\<close> and
    \<open>Inr v\<close> when it returns \<open>v\<close>.
  \<^item> The external tool is a parameter: a function from the argument vector to what
    becomes of the child process.
  \<^item> \<^verbatim>\<open>flavor\<close> and \<^verbatim>\<open>platform\<close> are strings, as \<^verbatim>\<open>main\<close> passes them.
\<close>

subsection \<open>Exceptions, events and the external tool\<close>

datatype exn =
    SystemExit int
  | CalledProcessError int "string list"
  | OSError

datatype event =
    Stdout string
  | Spawn "string list"

type_synonym world = "event list"

text \<open>
  The child either runs to completion with a return code, or cannot be started at all
  (no \<^verbatim>\<open>flutter\<close> executable on the path), which \<^verbatim>\<open>subprocess.run\<close> reports as
  an \<^verbatim>\<open>OSError\<close>.
\<close>

datatype child = Returncode int | NotStarted

type_synonym tool = "string list \<Rightarrow> child"

subsection \<open>The library calls the program makes\<close>

text \<open>\<^verbatim>\<open>sep.join(xs)\<close>.\<close>

fun join :: "string \<Rightarrow> string list \<Rightarrow> string" where
  "join sep [] = []"
| "join sep [x] = x"
| "join sep (x # y # ys) = x @ sep @ join sep (y # ys)"

text \<open>
  \<^verbatim>\<open>print(a, b, ...)\<close> writes its arguments separated by one space and ended by a
  newline: \<open>line\<close> is the text written, \<open>py_print\<close> the call.
\<close>

definition line :: "string list \<Rightarrow> string" where
  "line args = join '' '' args @ [CHR 0x0A]"

definition py_print :: "string list \<Rightarrow> world \<Rightarrow> world" where
  "py_print args w = w @ [Stdout (line args)]"

text \<open>
  \<^verbatim>\<open>subprocess.run(cmd, check=True)\<close>: the child inherits the streams, the call
  blocks until the child ends, and a return code other than zero raises
  \<^verbatim>\<open>CalledProcessError\<close>.
\<close>

definition subprocess_run :: "tool \<Rightarrow> string list \<Rightarrow> world \<Rightarrow> (exn + unit) \<times> world" where
  "subprocess_run t cmd w =
     (case t cmd of
        NotStarted \<Rightarrow> (Inl OSError, w @ [Spawn cmd])
      | Returncode rc \<Rightarrow>
          if rc \<noteq> 0 then (Inl (CalledProcessError rc cmd), w @ [Spawn cmd])
          else (Inr (), w @ [Spawn cmd]))"

subsection \<open>The string literals of the source\<close>

text \<open>The f-string prefix of line 37, a cross mark and "unsupported platform: ".\<close>

definition msg_unsupported :: string where
  "msg_unsupported =
     [CHR 0xE2, CHR 0x9D, CHR 0x8C, CHR 0x20,
      CHR 0xE4, CHR 0xB8, CHR 0x8D, CHR 0xE6, CHR 0x94, CHR 0xAF,
      CHR 0xE6, CHR 0x8C, CHR 0x81, CHR 0xE7, CHR 0x9A, CHR 0x84,
      CHR 0xE5, CHR 0xB9, CHR 0xB3, CHR 0xE5, CHR 0x8F, CHR 0xB0,
      CHR 0x3A, CHR 0x20]"

text \<open>The first argument of the \<^verbatim>\<open>print\<close> of line 40, a rocket and "build command:".\<close>

definition msg_command :: string where
  "msg_command =
     [CHR 0xF0, CHR 0x9F, CHR 0x9A, CHR 0x80, CHR 0x20,
      CHR 0xE6, CHR 0x89, CHR 0x93, CHR 0xE5, CHR 0x8C, CHR 0x85,
      CHR 0xE5, CHR 0x91, CHR 0xBD, CHR 0xE4, CHR 0xBB, CHR 0xA4,
      CHR 0xEF, CHR 0xBC, CHR 0x9A]"

text \<open>
  The first and the third argument of the \<^verbatim>\<open>print\<close> of line 42: a check mark with
  "build finished: platform =", and ", environment =".
\<close>

definition msg_done :: string where
  "msg_done =
     [CHR 0xE2, CHR 0x9C, CHR 0x85, CHR 0x20,
      CHR 0xE6, CHR 0x89, CHR 0x93, CHR 0xE5, CHR 0x8C, CHR 0x85,
      CHR 0xE5, CHR 0xAE, CHR 0x8C, CHR 0xE6, CHR 0x88, CHR 0x90,
      CHR 0xEF, CHR 0xBC, CHR 0x9A,
      CHR 0xE5, CHR 0xB9, CHR 0xB3, CHR 0xE5, CHR 0x8F, CHR 0xB0,
      CHR 0x20, CHR 0x3D]"

definition msg_env :: string where
  "msg_env =
     [CHR 0x2C, CHR 0x20,
      CHR 0xE7, CHR 0x8E, CHR 0xAF, CHR 0xE5, CHR 0xA2, CHR 0x83,
      CHR 0x20, CHR 0x3D]"

subsection \<open>\<^verbatim>\<open>build_flutter\<close>\<close>

text \<open>
  Lines 7 to 38: the three local variables and the \<^verbatim>\<open>if\<close>/\<^verbatim>\<open>elif\<close>/\<^verbatim>\<open>else\<close>
  that fills \<^verbatim>\<open>cmd\<close>. The variable \<^verbatim>\<open>build_mode\<close> of line 8 is bound and never
  read, as in the source; each branch appends the mode flag with an \<^verbatim>\<open>if\<close> of its
  own. The \<^verbatim>\<open>else\<close> branch prints and calls \<^verbatim>\<open>sys.exit(1)\<close>, which raises
  \<^verbatim>\<open>SystemExit(1)\<close>.
\<close>

definition compose_cmd :: "string \<Rightarrow> string \<Rightarrow> bool \<Rightarrow> world \<Rightarrow> (exn + string list) \<times> world" where
  "compose_cmd flavor platform release w =
     (let target_file = ''lib/main.dart'';
          build_mode = (if release then ''--release'' else ''--debug'');
          dart_define = ''--dart-define=ENV='' @ flavor;
          cmd = ([] :: string list)
      in
        if platform = ''android'' then
          (let cmd = [''flutter'', ''build'', ''apk'',
                      ''--flavor'', flavor,
                      ''-t'', target_file,
                      dart_define]
           in if release then (Inr (cmd @ [''--release'']), w)
              else (Inr (cmd @ [''--debug'']), w))
        else if platform = ''ios'' then
          (let cmd = [''flutter'', ''build'', ''ios'',
                      ''--flavor'', flavor,
                      ''-t'', target_file,
                      dart_define]
           in if release then (Inr (cmd @ [''--release'']), w)
              else (Inr (cmd @ [''--debug'']), w))
        else
          (Inl (SystemExit 1), py_print [msg_unsupported @ platform] w))"

text \<open>
  The whole function: lines 7 to 38 as above, then lines 40 to 42, which print the
  command, run it, and print the confirmation when \<^verbatim>\<open>subprocess.run\<close> returned.
\<close>

definition build_flutter :: "tool \<Rightarrow> string \<Rightarrow> string \<Rightarrow> bool \<Rightarrow> world \<Rightarrow> (exn + unit) \<times> world" where
  "build_flutter t flavor platform release w =
     (case compose_cmd flavor platform release w of
        (Inl e, w1) \<Rightarrow> (Inl e, w1)
      | (Inr cmd, w1) \<Rightarrow>
          (let w2 = py_print [msg_command, join '' '' cmd] w1
           in case subprocess_run t cmd w2 of
                (Inl e, w3) \<Rightarrow> (Inl e, w3)
              | (Inr u, w3) \<Rightarrow> (Inr (), py_print [msg_done, platform, msg_env, flavor] w3)))"

subsection \<open>The form the design notes ask for\<close>

text \<open>
  The design notes of the specification ask for the mode token to be computed once and
  reused. These two definitions follow those words: they are \<open>compose_cmd\<close> and
  \<open>build_flutter\<close> with \<^verbatim>\<open>cmd.append(build_mode)\<close> in the place of the inner
  \<^verbatim>\<open>if\<close>/\<^verbatim>\<open>else\<close>. They are not the source; they are compared with it below.
\<close>

definition compose_cmd_reuse :: "string \<Rightarrow> string \<Rightarrow> bool \<Rightarrow> world \<Rightarrow> (exn + string list) \<times> world" where
  "compose_cmd_reuse flavor platform release w =
     (let target_file = ''lib/main.dart'';
          build_mode = (if release then ''--release'' else ''--debug'');
          dart_define = ''--dart-define=ENV='' @ flavor
      in
        if platform = ''android'' then
          (Inr ([''flutter'', ''build'', ''apk'',
                 ''--flavor'', flavor,
                 ''-t'', target_file,
                 dart_define] @ [build_mode]), w)
        else if platform = ''ios'' then
          (Inr ([''flutter'', ''build'', ''ios'',
                 ''--flavor'', flavor,
                 ''-t'', target_file,
                 dart_define] @ [build_mode]), w)
        else
          (Inl (SystemExit 1), py_print [msg_unsupported @ platform] w))"

definition build_flutter_reuse :: "tool \<Rightarrow> string \<Rightarrow> string \<Rightarrow> bool \<Rightarrow> world \<Rightarrow> (exn + unit) \<times> world" where
  "build_flutter_reuse t flavor platform release w =
     (case compose_cmd_reuse flavor platform release w of
        (Inl e, w1) \<Rightarrow> (Inl e, w1)
      | (Inr cmd, w1) \<Rightarrow>
          (let w2 = py_print [msg_command, join '' '' cmd] w1
           in case subprocess_run t cmd w2 of
                (Inl e, w3) \<Rightarrow> (Inl e, w3)
              | (Inr u, w3) \<Rightarrow> (Inr (), py_print [msg_done, platform, msg_env, flavor] w3)))"

subsection \<open>\<^verbatim>\<open>main\<close> and the process\<close>

text \<open>
  The namespace that \<^verbatim>\<open>parser.parse_args()\<close> returns: \<^verbatim>\<open>--flavor\<close> and
  \<^verbatim>\<open>--platform\<close> are required and store a string, \<^verbatim>\<open>--debug\<close> is a
  \<^verbatim>\<open>store_true\<close> flag, so \<open>debug\<close> is true exactly when the flag was given.
\<close>

record namespace =
  flavor :: string
  platform :: string
  debug :: bool

text \<open>
  Lines 44 to 56. \<^verbatim>\<open>argparse\<close> is a library, so the outcome of
  \<^verbatim>\<open>parser.parse_args()\<close> is a parameter: the namespace, or the
  \<^verbatim>\<open>SystemExit\<close> it raises on a usage error or on \<^verbatim>\<open>-h\<close>. What
  \<^verbatim>\<open>argparse\<close> itself prints when it raises is not part of the trace.
\<close>

definition main :: "exn + namespace \<Rightarrow> tool \<Rightarrow> world \<Rightarrow> (exn + unit) \<times> world" where
  "main parsed t w =
     (case parsed of
        Inl e \<Rightarrow> (Inl e, w)
      | Inr args \<Rightarrow> build_flutter t (flavor args) (platform args) (\<not> debug args) w)"

text \<open>
  The exit status of the interpreter: 0 when the module ran to its end, the argument of
  \<^verbatim>\<open>sys.exit\<close> when \<^verbatim>\<open>SystemExit\<close> reaches the top, and 1 when any other
  exception does (the interpreter prints the traceback and exits with 1). The program
  catches no exception, so every exception reaches the top.
\<close>

definition exit_status :: "exn + unit \<Rightarrow> int" where
  "exit_status r =
     (case r of
        Inr u \<Rightarrow> 0
      | Inl (SystemExit n) \<Rightarrow> n
      | Inl (CalledProcessError rc cmd) \<Rightarrow> 1
      | Inl OSError \<Rightarrow> 1)"

text \<open>Lines 57 and 58: the module run as a script.\<close>

definition program :: "exn + namespace \<Rightarrow> tool \<Rightarrow> world \<Rightarrow> int \<times> world" where
  "program parsed t w = (case main parsed t w of (r, w1) \<Rightarrow> (exit_status r, w1))"

subsection \<open>Observations and test doubles\<close>

text \<open>The argument vectors handed to \<^verbatim>\<open>subprocess.run\<close>, oldest first.\<close>

fun spawned :: "world \<Rightarrow> string list list" where
  "spawned [] = []"
| "spawned (Spawn cmd # w) = cmd # spawned w"
| "spawned (Stdout s # w) = spawned w"

text \<open>How many tokens of a command are a mode flag.\<close>

definition mode_tokens :: "string list \<Rightarrow> nat" where
  "mode_tokens cmd = count_list cmd ''--release'' + count_list cmd ''--debug''"

text \<open>A stand-in for the external tool that ends with the given return code.\<close>

definition mock_tool :: "int \<Rightarrow> tool" where
  "mock_tool rc cmd = Returncode rc"

section \<open>Properties\<close>

subsection \<open>What the functions compute\<close>

lemma spawned_append: "spawned (w @ v) = spawned w @ spawned v"
  by (induction w rule: spawned.induct) simp_all

lemma compose_cmd_android:
  "compose_cmd f ''android'' r w =
     (Inr [''flutter'', ''build'', ''apk'', ''--flavor'', f, ''-t'', ''lib/main.dart'',
           ''--dart-define=ENV='' @ f, if r then ''--release'' else ''--debug''], w)"
  by (simp add: compose_cmd_def)

lemma compose_cmd_ios:
  "compose_cmd f ''ios'' r w =
     (Inr [''flutter'', ''build'', ''ios'', ''--flavor'', f, ''-t'', ''lib/main.dart'',
           ''--dart-define=ENV='' @ f, if r then ''--release'' else ''--debug''], w)"
  by (simp add: compose_cmd_def)

lemma compose_cmd_other:
  "p \<noteq> ''android'' \<Longrightarrow> p \<noteq> ''ios'' \<Longrightarrow>
   compose_cmd f p r w = (Inl (SystemExit 1), w @ [Stdout (line [msg_unsupported @ p])])"
  by (simp add: compose_cmd_def py_print_def)

lemma platform_cases:
  obtains (android) "p = ''android''"
  | (ios) "p = ''ios''"
  | (other) "p \<noteq> ''android''" "p \<noteq> ''ios''"
  by blast

lemma compose_cmd_Inr:
  "fst (compose_cmd f p r w) = Inr cmd \<Longrightarrow> compose_cmd f p r w = (Inr cmd, w)"
proof (cases p rule: platform_cases)
  case android
  then show "fst (compose_cmd f p r w) = Inr cmd \<Longrightarrow> ?thesis"
    by (simp add: compose_cmd_android)
next
  case ios
  then show "fst (compose_cmd f p r w) = Inr cmd \<Longrightarrow> ?thesis"
    by (simp add: compose_cmd_ios)
next
  case other
  then show "fst (compose_cmd f p r w) = Inr cmd \<Longrightarrow> ?thesis"
    by (simp add: compose_cmd_other)
qed

text \<open>The composition does not read the trace: it only adds to it.\<close>

lemma compose_cmd_fresh:
  "compose_cmd f p r w = (fst (compose_cmd f p r []), w @ snd (compose_cmd f p r []))"
proof (cases p rule: platform_cases)
  case android
  then show ?thesis by (simp add: compose_cmd_android)
next
  case ios
  then show ?thesis by (simp add: compose_cmd_ios)
next
  case other
  then show ?thesis by (simp add: compose_cmd_other)
qed

text \<open>The whole function after a composition that returned a command.\<close>

lemma build_flutter_composed:
  "compose_cmd f p r w = (Inr cmd, w1) \<Longrightarrow>
   build_flutter t f p r w =
     (case t cmd of
        NotStarted \<Rightarrow> (Inl OSError, w1 @ [Stdout (line [msg_command, join '' '' cmd]), Spawn cmd])
      | Returncode rc \<Rightarrow>
          if rc \<noteq> 0
          then (Inl (CalledProcessError rc cmd),
                w1 @ [Stdout (line [msg_command, join '' '' cmd]), Spawn cmd])
          else (Inr (),
                w1 @ [Stdout (line [msg_command, join '' '' cmd]), Spawn cmd,
                      Stdout (line [msg_done, p, msg_env, f])]))"
  by (simp add: build_flutter_def subprocess_run_def py_print_def split: child.split)

text \<open>The whole function after a composition that raised.\<close>

lemma build_flutter_refused:
  "compose_cmd f p r w = (Inl e, w1) \<Longrightarrow> build_flutter t f p r w = (Inl e, w1)"
  by (simp add: build_flutter_def)

lemma spawned_build_flutter:
  "compose_cmd f p r w = (Inr cmd, w1) \<Longrightarrow>
   spawned (snd (build_flutter t f p r w)) = spawned w1 @ [cmd]"
  by (simp add: build_flutter_composed spawned_append split: child.split)

lemma build_flutter_fresh:
  "build_flutter t f p r w = (fst (build_flutter t f p r []), w @ snd (build_flutter t f p r []))"
proof (cases "fst (compose_cmd f p r [])")
  case (Inl e)
  obtain w0 where w0: "snd (compose_cmd f p r []) = w0" by simp
  have "compose_cmd f p r v = (Inl e, v @ w0)" for v
    using compose_cmd_fresh [of f p r v] Inl w0 by simp
  then show ?thesis
    by (simp add: build_flutter_refused)
next
  case (Inr cmd)
  then have "compose_cmd f p r v = (Inr cmd, v)" for v
    using compose_cmd_Inr [of f p r "[]" cmd] compose_cmd_fresh [of f p r v] by simp
  then show ?thesis
    by (simp add: build_flutter_composed split: child.split)
qed

text \<open>Which commands are spawned does not depend on what the tool answers.\<close>

lemma spawned_build_flutter_tool:
  "spawned (snd (build_flutter t1 f p r [])) = spawned (snd (build_flutter t2 f p r []))"
proof (cases "fst (compose_cmd f p r [])")
  case (Inl e)
  then have "compose_cmd f p r [] = (Inl e, snd (compose_cmd f p r []))"
    by (simp add: prod_eq_iff)
  then show ?thesis
    by (simp add: build_flutter_refused)
next
  case (Inr cmd)
  then have "compose_cmd f p r [] = (Inr cmd, [])"
    by (rule compose_cmd_Inr)
  then show ?thesis
    by (simp add: spawned_build_flutter)
qed

lemma main_parsed:
  "main (Inr \<lparr>flavor = f, platform = p, debug = d\<rparr>) t w = build_flutter t f p (\<not> d) w"
  by (simp add: main_def)

lemma program_main:
  "main parsed t w = (res, w1) \<Longrightarrow> program parsed t w = (exit_status res, w1)"
  by (simp add: program_def)

text \<open>The define token is longer than the flavor, so the flavor is never that token.\<close>

lemma define_not_flavor: "f \<noteq> ''--dart-define=ENV='' @ f"
proof
  assume "f = ''--dart-define=ENV='' @ f"
  then have "length f = length (''--dart-define=ENV='' @ f)" by (rule arg_cong)
  then show False by simp
qed

text \<open>The confirmation starts with a check mark and the command line with a rocket.\<close>

lemma done_not_command: "line [msg_done, p, msg_env, f] \<noteq> line [msg_command, c]"
  by (simp add: line_def msg_done_def msg_command_def)

subsection \<open>The tokens of the command\<close>

text \<open>
  Claim C1, as the code has it. For a platform that is \<^verbatim>\<open>android\<close> or \<^verbatim>\<open>ios\<close>,
  a flavor that is not empty and is not itself one of the two mode flags, and either
  value of \<^verbatim>\<open>release\<close>, the composition returns a command, that command is the
  one handed to \<^verbatim>\<open>subprocess.run\<close>, it holds exactly one mode token
  (\<^verbatim>\<open>--release\<close> or \<^verbatim>\<open>--debug\<close>, not both), exactly one token
  \<^verbatim>\<open>--dart-define=ENV=<flavor>\<close>, and the artifact token of the platform
  (\<^verbatim>\<open>apk\<close> for android, \<^verbatim>\<open>ios\<close> for ios).
\<close>

theorem compose_tokens:
  assumes "p = ''android'' \<or> p = ''ios''"
    and "f \<noteq> []" and "f \<noteq> ''--release''" and "f \<noteq> ''--debug''"
  shows "\<exists>cmd. compose_cmd f p r w = (Inr cmd, w)
           \<and> spawned (snd (build_flutter t f p r w)) = spawned w @ [cmd]
           \<and> mode_tokens cmd = 1
           \<and> (''--release'' \<in> set cmd) \<noteq> (''--debug'' \<in> set cmd)
           \<and> count_list cmd (''--dart-define=ENV='' @ f) = 1
           \<and> (if p = ''android'' then ''apk'' else ''ios'') \<in> set cmd"
  using assms(1)
proof
  assume p: "p = ''android''"
  let ?cmd = "[''flutter'', ''build'', ''apk'', ''--flavor'', f, ''-t'', ''lib/main.dart'',
               ''--dart-define=ENV='' @ f, if r then ''--release'' else ''--debug'']"
  have c: "compose_cmd f p r w = (Inr ?cmd, w)"
    unfolding p by (rule compose_cmd_android)
  have s: "spawned (snd (build_flutter t f p r w)) = spawned w @ [?cmd]"
    by (rule spawned_build_flutter [OF c])
  have m: "mode_tokens ?cmd = 1"
    using assms(3,4) by (simp add: mode_tokens_def)
  have x: "(''--release'' \<in> set ?cmd) \<noteq> (''--debug'' \<in> set ?cmd)"
    using assms(3,4) by auto
  have d: "count_list ?cmd (''--dart-define=ENV='' @ f) = 1"
    using define_not_flavor [of f] by simp
  have a: "(if p = ''android'' then ''apk'' else ''ios'') \<in> set ?cmd"
    by (simp add: p)
  from c s m x d a show ?thesis by blast
next
  assume p: "p = ''ios''"
  let ?cmd = "[''flutter'', ''build'', ''ios'', ''--flavor'', f, ''-t'', ''lib/main.dart'',
               ''--dart-define=ENV='' @ f, if r then ''--release'' else ''--debug'']"
  have c: "compose_cmd f p r w = (Inr ?cmd, w)"
    unfolding p by (rule compose_cmd_ios)
  have s: "spawned (snd (build_flutter t f p r w)) = spawned w @ [?cmd]"
    by (rule spawned_build_flutter [OF c])
  have m: "mode_tokens ?cmd = 1"
    using assms(3,4) by (simp add: mode_tokens_def)
  have x: "(''--release'' \<in> set ?cmd) \<noteq> (''--debug'' \<in> set ?cmd)"
    using assms(3,4) by auto
  have d: "count_list ?cmd (''--dart-define=ENV='' @ f) = 1"
    using define_not_flavor [of f] by simp
  have a: "(if p = ''android'' then ''apk'' else ''ios'') \<in> set ?cmd"
    by (simp add: p)
  from c s m x d a show ?thesis by blast
qed

text \<open>
  Claim C1, the hypotheses met: flavor \<^verbatim>\<open>dev\<close> on android in release mode.
\<close>

theorem compose_tokens_witness:
  "(''android'' = ''android'' \<or> ''android'' = ''ios'')
   \<and> ''dev'' \<noteq> [] \<and> ''dev'' \<noteq> ''--release'' \<and> ''dev'' \<noteq> ''--debug''
   \<and> (\<exists>cmd. compose_cmd ''dev'' ''android'' True [] = (Inr cmd, [])
           \<and> spawned (snd (build_flutter (mock_tool 0) ''dev'' ''android'' True [])) = spawned [] @ [cmd]
           \<and> mode_tokens cmd = 1
           \<and> (''--release'' \<in> set cmd) \<noteq> (''--debug'' \<in> set cmd)
           \<and> count_list cmd (''--dart-define=ENV='' @ ''dev'') = 1
           \<and> (if ''android'' = ''android'' then ''apk'' else ''ios'') \<in> set cmd)"
  using compose_tokens [of "''android''" "''dev''" True "[]" "mock_tool 0"] by simp

text \<open>
  Claim C1 as the specification words it, for every flavor that is not empty, fails:
  the flavor is copied into the command unchecked, so the flavor \<^verbatim>\<open>--release\<close> on
  android in release mode gives a command with two mode tokens.
\<close>

theorem mode_token_twice:
  "''--release'' \<noteq> []
   \<and> compose_cmd ''--release'' ''android'' True [] =
       (Inr [''flutter'', ''build'', ''apk'', ''--flavor'', ''--release'', ''-t'',
             ''lib/main.dart'', ''--dart-define=ENV=--release'', ''--release''], [])
   \<and> spawned (snd (build_flutter (mock_tool 0) ''--release'' ''android'' True [])) =
       [[''flutter'', ''build'', ''apk'', ''--flavor'', ''--release'', ''-t'',
         ''lib/main.dart'', ''--dart-define=ENV=--release'', ''--release'']]
   \<and> mode_tokens [''flutter'', ''build'', ''apk'', ''--flavor'', ''--release'', ''-t'',
                   ''lib/main.dart'', ''--dart-define=ENV=--release'', ''--release''] = 2
   \<and> mode_tokens [''flutter'', ''build'', ''apk'', ''--flavor'', ''--release'', ''-t'',
                   ''lib/main.dart'', ''--dart-define=ENV=--release'', ''--release''] \<noteq> 1"
  by (simp add: compose_cmd_android spawned_build_flutter mode_tokens_def)

subsection \<open>Failure of the external tool\<close>

text \<open>
  Claim C2, as the code has it. When the composed command is run and the tool ends with
  a return code other than zero, \<^verbatim>\<open>build_flutter\<close> raises
  \<^verbatim>\<open>CalledProcessError\<close> after printing the command line and spawning the tool;
  nothing catches it, so the process ends with status 1, whatever the code of the tool
  was, and the confirmation is not among what the run printed.
\<close>

theorem tool_failure_status_one:
  assumes "fst (compose_cmd f p r w) = Inr cmd" and "t cmd = Returncode rc" and "rc \<noteq> 0"
  shows "build_flutter t f p r w =
           (Inl (CalledProcessError rc cmd),
            w @ [Stdout (line [msg_command, join '' '' cmd]), Spawn cmd])
       \<and> program (Inr \<lparr>flavor = f, platform = p, debug = \<not> r\<rparr>) t w =
           (1, w @ [Stdout (line [msg_command, join '' '' cmd]), Spawn cmd])
       \<and> Stdout (line [msg_done, p, msg_env, f]) \<notin>
           set (drop (length w) (snd (program (Inr \<lparr>flavor = f, platform = p, debug = \<not> r\<rparr>) t w)))"
proof -
  have c: "compose_cmd f p r w = (Inr cmd, w)"
    using assms(1) by (rule compose_cmd_Inr)
  have b: "build_flutter t f p r w =
             (Inl (CalledProcessError rc cmd),
              w @ [Stdout (line [msg_command, join '' '' cmd]), Spawn cmd])"
    using assms(2,3) by (simp add: build_flutter_composed [OF c])
  have m: "main (Inr \<lparr>flavor = f, platform = p, debug = \<not> r\<rparr>) t w =
             (Inl (CalledProcessError rc cmd),
              w @ [Stdout (line [msg_command, join '' '' cmd]), Spawn cmd])"
    by (simp add: main_parsed b)
  have g: "program (Inr \<lparr>flavor = f, platform = p, debug = \<not> r\<rparr>) t w =
             (1, w @ [Stdout (line [msg_command, join '' '' cmd]), Spawn cmd])"
    by (simp add: program_main [OF m] exit_status_def)
  have n: "Stdout (line [msg_done, p, msg_env, f]) \<notin>
             set (drop (length w) (snd (program (Inr \<lparr>flavor = f, platform = p, debug = \<not> r\<rparr>) t w)))"
    by (simp add: g done_not_command)
  from b g n show ?thesis by blast
qed

text \<open>
  Claim C2, the hypotheses met: flavor \<^verbatim>\<open>dev\<close> on android in release mode, with
  a tool that ends with code 2.
\<close>

theorem tool_failure_status_one_witness:
  "fst (compose_cmd ''dev'' ''android'' True []) =
     Inr [''flutter'', ''build'', ''apk'', ''--flavor'', ''dev'', ''-t'', ''lib/main.dart'',
          ''--dart-define=ENV=dev'', ''--release'']
   \<and> mock_tool 2 [''flutter'', ''build'', ''apk'', ''--flavor'', ''dev'', ''-t'',
                   ''lib/main.dart'', ''--dart-define=ENV=dev'', ''--release''] = Returncode 2
   \<and> (2::int) \<noteq> 0
   \<and> fst (build_flutter (mock_tool 2) ''dev'' ''android'' True []) =
       Inl (CalledProcessError 2 [''flutter'', ''build'', ''apk'', ''--flavor'', ''dev'', ''-t'',
                                  ''lib/main.dart'', ''--dart-define=ENV=dev'', ''--release''])
   \<and> fst (program (Inr \<lparr>flavor = ''dev'', platform = ''android'', debug = False\<rparr>)
             (mock_tool 2) []) = 1"
  using tool_failure_status_one
    [of "''dev''" "''android''" True "[]"
        "[''flutter'', ''build'', ''apk'', ''--flavor'', ''dev'', ''-t'', ''lib/main.dart'',
          ''--dart-define=ENV=dev'', ''--release'']"
        "mock_tool 2" 2]
  by (simp add: compose_cmd_android mock_tool_def)

text \<open>
  Claim C2 as the specification words it, the status of the process being the code of
  the tool, fails: with a tool that ends with code 2 the process ends with status 1.
\<close>

theorem tool_exit_two_status_one:
  "mock_tool 2 [''flutter'', ''build'', ''apk'', ''--flavor'', ''dev'', ''-t'',
                ''lib/main.dart'', ''--dart-define=ENV=dev'', ''--release''] = Returncode 2
   \<and> spawned (snd (program (Inr \<lparr>flavor = ''dev'', platform = ''android'', debug = False\<rparr>)
                   (mock_tool 2) [])) =
       [[''flutter'', ''build'', ''apk'', ''--flavor'', ''dev'', ''-t'',
         ''lib/main.dart'', ''--dart-define=ENV=dev'', ''--release'']]
   \<and> fst (program (Inr \<lparr>flavor = ''dev'', platform = ''android'', debug = False\<rparr>)
             (mock_tool 2) []) = 1
   \<and> fst (program (Inr \<lparr>flavor = ''dev'', platform = ''android'', debug = False\<rparr>)
             (mock_tool 2) []) \<noteq> 2"
  by (simp add: program_def main_def build_flutter_composed [OF compose_cmd_android]
      mock_tool_def exit_status_def)

subsection \<open>The two scenarios\<close>

text \<open>
  Claim C3. Flavor \<^verbatim>\<open>dev\<close>, platform \<^verbatim>\<open>android\<close>, no \<^verbatim>\<open>--debug\<close>: the
  composed command is \<^verbatim>\<open>flutter build apk --flavor dev -t lib/main.dart
  --dart-define=ENV=dev --release\<close>, token by token, it is the one command the
  program spawns, and the process ends with status 0 when the tool returns 0 on it.
\<close>

theorem scenario_A:
  "compose_cmd ''dev'' ''android'' True w =
     (Inr [''flutter'', ''build'', ''apk'', ''--flavor'', ''dev'', ''-t'', ''lib/main.dart'',
           ''--dart-define=ENV=dev'', ''--release''], w)
   \<and> spawned (snd (program (Inr \<lparr>flavor = ''dev'', platform = ''android'', debug = False\<rparr>) t w)) =
       spawned w @ [[''flutter'', ''build'', ''apk'', ''--flavor'', ''dev'', ''-t'',
                     ''lib/main.dart'', ''--dart-define=ENV=dev'', ''--release'']]
   \<and> (t [''flutter'', ''build'', ''apk'', ''--flavor'', ''dev'', ''-t'', ''lib/main.dart'',
           ''--dart-define=ENV=dev'', ''--release''] = Returncode 0 \<longrightarrow>
        fst (program (Inr \<lparr>flavor = ''dev'', platform = ''android'', debug = False\<rparr>) t w) = 0)"
  by (simp add: program_def main_def build_flutter_composed [OF compose_cmd_android]
      compose_cmd_android exit_status_def spawned_append split: child.split)

text \<open>Claim C3, the hypothesis met: a tool that returns 0, from the empty trace.\<close>

theorem scenario_A_witness:
  "mock_tool 0 [''flutter'', ''build'', ''apk'', ''--flavor'', ''dev'', ''-t'', ''lib/main.dart'',
                ''--dart-define=ENV=dev'', ''--release''] = Returncode 0
   \<and> fst (program (Inr \<lparr>flavor = ''dev'', platform = ''android'', debug = False\<rparr>)
             (mock_tool 0) []) = 0
   \<and> spawned (snd (program (Inr \<lparr>flavor = ''dev'', platform = ''android'', debug = False\<rparr>)
                    (mock_tool 0) [])) =
       [[''flutter'', ''build'', ''apk'', ''--flavor'', ''dev'', ''-t'',
         ''lib/main.dart'', ''--dart-define=ENV=dev'', ''--release'']]"
  using scenario_A [of "[]" "mock_tool 0"] by (simp add: mock_tool_def)

text \<open>
  Claim C4. Flavor \<^verbatim>\<open>prod\<close>, platform \<^verbatim>\<open>ios\<close>, \<^verbatim>\<open>--debug\<close> given: the
  composed command is \<^verbatim>\<open>flutter build ios --flavor prod -t lib/main.dart
  --dart-define=ENV=prod --debug\<close>, token by token, and it is the one command
  \<^verbatim>\<open>main\<close> spawns.
\<close>

theorem scenario_B:
  "compose_cmd ''prod'' ''ios'' False w =
     (Inr [''flutter'', ''build'', ''ios'', ''--flavor'', ''prod'', ''-t'', ''lib/main.dart'',
           ''--dart-define=ENV=prod'', ''--debug''], w)
   \<and> spawned (snd (main (Inr \<lparr>flavor = ''prod'', platform = ''ios'', debug = True\<rparr>) t w)) =
       spawned w @ [[''flutter'', ''build'', ''ios'', ''--flavor'', ''prod'', ''-t'',
                     ''lib/main.dart'', ''--dart-define=ENV=prod'', ''--debug'']]"
  by (simp add: main_def build_flutter_composed [OF compose_cmd_ios]
      compose_cmd_ios spawned_append split: child.split)

subsection \<open>Unsupported platforms\<close>

text \<open>
  Claim C5. For a platform that is neither \<^verbatim>\<open>android\<close> nor \<^verbatim>\<open>ios\<close>, whatever
  the flavor, the mode and the tool: \<^verbatim>\<open>build_flutter\<close> prints one line, the
  message of line 37 followed by the platform as given, and raises
  \<^verbatim>\<open>SystemExit(1)\<close>; the process ends with status 1; no command is spawned.
\<close>

theorem unsupported_platform:
  assumes "p \<noteq> ''android''" and "p \<noteq> ''ios''"
  shows "build_flutter t f p r w =
           (Inl (SystemExit 1), w @ [Stdout (msg_unsupported @ p @ [CHR 0x0A])])
       \<and> program (Inr \<lparr>flavor = f, platform = p, debug = d\<rparr>) t w =
           (1, w @ [Stdout (msg_unsupported @ p @ [CHR 0x0A])])
       \<and> spawned (snd (program (Inr \<lparr>flavor = f, platform = p, debug = d\<rparr>) t w)) = spawned w"
proof -
  have b: "build_flutter t f p r w =
             (Inl (SystemExit 1), w @ [Stdout (msg_unsupported @ p @ [CHR 0x0A])])" for r
    using build_flutter_refused [OF compose_cmd_other [OF assms]]
    by (simp add: line_def)
  have g: "program (Inr \<lparr>flavor = f, platform = p, debug = d\<rparr>) t w =
             (1, w @ [Stdout (msg_unsupported @ p @ [CHR 0x0A])])"
    by (simp add: program_def main_def b exit_status_def)
  have s: "spawned (snd (program (Inr \<lparr>flavor = f, platform = p, debug = d\<rparr>) t w)) = spawned w"
    by (simp add: g spawned_append)
  from b g s show ?thesis by blast
qed

text \<open>Claim C5, the hypotheses met: the platform \<^verbatim>\<open>windows\<close>.\<close>

theorem unsupported_platform_witness:
  "''windows'' \<noteq> ''android'' \<and> ''windows'' \<noteq> ''ios''
   \<and> build_flutter (mock_tool 0) ''dev'' ''windows'' True [] =
       (Inl (SystemExit 1), [Stdout (msg_unsupported @ ''windows'' @ [CHR 0x0A])])
   \<and> program (Inr \<lparr>flavor = ''dev'', platform = ''windows'', debug = False\<rparr>) (mock_tool 0) [] =
       (1, [Stdout (msg_unsupported @ ''windows'' @ [CHR 0x0A])])
   \<and> spawned (snd (program (Inr \<lparr>flavor = ''dev'', platform = ''windows'', debug = False\<rparr>)
                    (mock_tool 0) [])) = []"
  using unsupported_platform [of "''windows''" "mock_tool 0" "''dev''" True "[]" False]
  by simp

subsection \<open>Determinism and the mode flag\<close>

text \<open>
  Claim C6. The composition is a function of flavor, platform and mode alone: from any
  two traces it returns the same result and adds the same events, the commands that
  \<^verbatim>\<open>build_flutter\<close> spawns are the same from any two traces and with any two
  tools, and a second call right after a first spawns what the first spawned.
\<close>

theorem composition_deterministic:
  "fst (compose_cmd f p r w1) = fst (compose_cmd f p r w2)
   \<and> drop (length w1) (snd (compose_cmd f p r w1)) = drop (length w2) (snd (compose_cmd f p r w2))
   \<and> drop (length (spawned w1)) (spawned (snd (build_flutter t1 f p r w1))) =
       drop (length (spawned w2)) (spawned (snd (build_flutter t2 f p r w2)))
   \<and> drop (length (spawned (snd (build_flutter t1 f p r w1))))
         (spawned (snd (build_flutter t2 f p r (snd (build_flutter t1 f p r w1))))) =
       drop (length (spawned w1)) (spawned (snd (build_flutter t1 f p r w1)))"
proof -
  have a: "fst (compose_cmd f p r w1) = fst (compose_cmd f p r w2)"
    by (simp add: compose_cmd_fresh [of f p r w1] compose_cmd_fresh [of f p r w2])
  have b: "drop (length w1) (snd (compose_cmd f p r w1)) =
           drop (length w2) (snd (compose_cmd f p r w2))"
    by (simp add: compose_cmd_fresh [of f p r w1] compose_cmd_fresh [of f p r w2])
  have d: "drop (length (spawned w)) (spawned (snd (build_flutter t f p r w))) =
           spawned (snd (build_flutter t1 f p r []))" for t w
    by (simp add: build_flutter_fresh [of t f p r w] spawned_append
        spawned_build_flutter_tool [of t f p r t1])
  from a b d [of w1 t1] d [of w2 t2] d [of "snd (build_flutter t1 f p r w1)" t2]
  show ?thesis by simp
qed

text \<open>
  Claim C7. Appending the variable \<^verbatim>\<open>build_mode\<close> of line 8, instead of deciding
  the mode flag again in each platform branch, changes nothing: the composition and the
  whole function with the variable reused equal those of the source on every input.
\<close>

theorem mode_recomputation_equivalent:
  "compose_cmd_reuse f p r w = compose_cmd f p r w
   \<and> build_flutter_reuse t f p r w = build_flutter t f p r w"
proof -
  have c: "compose_cmd_reuse f p r w = compose_cmd f p r w" for w
    by (simp add: compose_cmd_reuse_def compose_cmd_def Let_def)
  have b: "build_flutter_reuse t f p r w = build_flutter t f p r w"
    by (simp add: build_flutter_reuse_def build_flutter_def c)
  from c b show ?thesis by blast
qed

subsection \<open>The entry point\<close>

text \<open>
  Claim C8. \<^verbatim>\<open>main\<close> calls \<^verbatim>\<open>build_flutter\<close> with \<^verbatim>\<open>release = not debug\<close>:
  with \<^verbatim>\<open>release\<close> true when \<^verbatim>\<open>--debug\<close> is absent and false when it is
  present. When the composition returns a command, the first two events of the run are
  the printed command line and the spawn of that same command, so the command is
  composed before it is run.
\<close>

theorem main_release_not_debug:
  "main (Inr \<lparr>flavor = f, platform = p, debug = d\<rparr>) t w = build_flutter t f p (\<not> d) w
   \<and> main (Inr \<lparr>flavor = f, platform = p, debug = False\<rparr>) t w = build_flutter t f p True w
   \<and> main (Inr \<lparr>flavor = f, platform = p, debug = True\<rparr>) t w = build_flutter t f p False w
   \<and> (fst (compose_cmd f p (\<not> d) w) = Inr cmd \<longrightarrow>
        take 2 (drop (length w) (snd (main (Inr \<lparr>flavor = f, platform = p, debug = d\<rparr>) t w))) =
          [Stdout (line [msg_command, join '' '' cmd]), Spawn cmd])"
proof -
  have m: "main (Inr \<lparr>flavor = f, platform = p, debug = d\<rparr>) t w = build_flutter t f p (\<not> d) w"
    for d by (simp add: main_def)
  have o: "take 2 (drop (length w) (snd (main (Inr \<lparr>flavor = f, platform = p, debug = d\<rparr>) t w))) =
             [Stdout (line [msg_command, join '' '' cmd]), Spawn cmd]"
    if "fst (compose_cmd f p (\<not> d) w) = Inr cmd"
    using build_flutter_composed [OF compose_cmd_Inr [OF that], of t]
    by (simp add: m split: child.split)
  from m [of d] m [of False] m [of True] o show ?thesis by simp
qed

text \<open>
  Claim C8, the hypothesis met: flavor \<^verbatim>\<open>dev\<close> on android without
  \<^verbatim>\<open>--debug\<close>.
\<close>

theorem main_release_not_debug_witness:
  "fst (compose_cmd ''dev'' ''android'' (\<not> False) []) =
     Inr [''flutter'', ''build'', ''apk'', ''--flavor'', ''dev'', ''-t'', ''lib/main.dart'',
          ''--dart-define=ENV=dev'', ''--release'']
   \<and> take 2 (drop (length ([] :: world))
        (snd (main (Inr \<lparr>flavor = ''dev'', platform = ''android'', debug = False\<rparr>) (mock_tool 0) []))) =
       [Stdout (line [msg_command, ''flutter build apk --flavor dev -t lib/main.dart --dart-define=ENV=dev --release'']),
        Spawn [''flutter'', ''build'', ''apk'', ''--flavor'', ''dev'', ''-t'', ''lib/main.dart'',
               ''--dart-define=ENV=dev'', ''--release'']]"
  using main_release_not_debug
    [of "''dev''" "''android''" False "mock_tool 0" "[]"
        "[''flutter'', ''build'', ''apk'', ''--flavor'', ''dev'', ''-t'', ''lib/main.dart'',
          ''--dart-define=ENV=dev'', ''--release'']"]
  by (simp add: compose_cmd_android main_def)

subsection \<open>Inputs that are not validated or not normalised\<close>

text \<open>
  Claim C9. The platform is compared with \<^verbatim>\<open>==\<close>, byte for byte, and with nothing
  else. For every platform string: a command is composed exactly when the string is
  \<^verbatim>\<open>android\<close> or \<^verbatim>\<open>ios\<close>; \<^verbatim>\<open>build_flutter\<close> prints the message and
  raises \<^verbatim>\<open>SystemExit(1)\<close> exactly when it is neither, and spawns nothing exactly
  then; and the process then ends with status 1. In particular \<^verbatim>\<open>Android\<close>,
  \<^verbatim>\<open>IOS\<close> and \<^verbatim>\<open>android\<close> followed by a space are each refused.
\<close>

theorem platform_match_exact:
  "((\<exists>cmd. fst (compose_cmd f p r w) = Inr cmd) \<longleftrightarrow> (p = ''android'' \<or> p = ''ios''))
   \<and> (build_flutter t f p r w =
         (Inl (SystemExit 1), w @ [Stdout (msg_unsupported @ p @ [CHR 0x0A])])
        \<longleftrightarrow> (p \<noteq> ''android'' \<and> p \<noteq> ''ios''))
   \<and> (spawned (snd (build_flutter t f p r w)) = spawned w
        \<longleftrightarrow> (p \<noteq> ''android'' \<and> p \<noteq> ''ios''))
   \<and> (p \<noteq> ''android'' \<and> p \<noteq> ''ios'' \<longrightarrow>
        program (Inr \<lparr>flavor = f, platform = p, debug = d\<rparr>) t w =
          (1, w @ [Stdout (msg_unsupported @ p @ [CHR 0x0A])]))
   \<and> program (Inr \<lparr>flavor = f, platform = ''Android'', debug = d\<rparr>) t w =
     (1, w @ [Stdout (msg_unsupported @ ''Android'' @ [CHR 0x0A])])
   \<and> program (Inr \<lparr>flavor = f, platform = ''IOS'', debug = d\<rparr>) t w =
     (1, w @ [Stdout (msg_unsupported @ ''IOS'' @ [CHR 0x0A])])
   \<and> program (Inr \<lparr>flavor = f, platform = ''android '', debug = d\<rparr>) t w =
     (1, w @ [Stdout (msg_unsupported @ ''android '' @ [CHR 0x0A])])
   \<and> build_flutter t f ''Android'' r w =
     (Inl (SystemExit 1), w @ [Stdout (msg_unsupported @ ''Android'' @ [CHR 0x0A])])
   \<and> build_flutter t f ''IOS'' r w =
     (Inl (SystemExit 1), w @ [Stdout (msg_unsupported @ ''IOS'' @ [CHR 0x0A])])
   \<and> build_flutter t f ''android '' r w =
     (Inl (SystemExit 1), w @ [Stdout (msg_unsupported @ ''android '' @ [CHR 0x0A])])"
proof -
  have refused: "build_flutter t f q r w =
                   (Inl (SystemExit 1), w @ [Stdout (msg_unsupported @ q @ [CHR 0x0A])])
               \<and> program (Inr \<lparr>flavor = f, platform = q, debug = d\<rparr>) t w =
                   (1, w @ [Stdout (msg_unsupported @ q @ [CHR 0x0A])])"
    if q: "q \<noteq> ''android''" "q \<noteq> ''ios''" for q
  proof -
    have b: "build_flutter t f q r w =
               (Inl (SystemExit 1), w @ [Stdout (msg_unsupported @ q @ [CHR 0x0A])])" for r
      using build_flutter_refused [OF compose_cmd_other [OF q]] by (simp add: line_def)
    have "program (Inr \<lparr>flavor = f, platform = q, debug = d\<rparr>) t w =
            (1, w @ [Stdout (msg_unsupported @ q @ [CHR 0x0A])])"
      by (simp add: program_def main_def b exit_status_def)
    with b show ?thesis by blast
  qed
  have general:
    "((\<exists>cmd. fst (compose_cmd f p r w) = Inr cmd) \<longleftrightarrow> (p = ''android'' \<or> p = ''ios''))
     \<and> (build_flutter t f p r w =
           (Inl (SystemExit 1), w @ [Stdout (msg_unsupported @ p @ [CHR 0x0A])])
          \<longleftrightarrow> (p \<noteq> ''android'' \<and> p \<noteq> ''ios''))
     \<and> (spawned (snd (build_flutter t f p r w)) = spawned w
          \<longleftrightarrow> (p \<noteq> ''android'' \<and> p \<noteq> ''ios''))
     \<and> (p \<noteq> ''android'' \<and> p \<noteq> ''ios'' \<longrightarrow>
          program (Inr \<lparr>flavor = f, platform = p, debug = d\<rparr>) t w =
            (1, w @ [Stdout (msg_unsupported @ p @ [CHR 0x0A])]))"
  proof (cases p rule: platform_cases)
    case android
    have "build_flutter t f ''android'' r w \<noteq>
            (Inl (SystemExit 1), w @ [Stdout (msg_unsupported @ ''android'' @ [CHR 0x0A])])"
      by (simp add: build_flutter_composed [OF compose_cmd_android] split: child.split)
    then show ?thesis
      by (simp add: android compose_cmd_android spawned_build_flutter [OF compose_cmd_android])
  next
    case ios
    have "build_flutter t f ''ios'' r w \<noteq>
            (Inl (SystemExit 1), w @ [Stdout (msg_unsupported @ ''ios'' @ [CHR 0x0A])])"
      by (simp add: build_flutter_composed [OF compose_cmd_ios] split: child.split)
    then show ?thesis
      by (simp add: ios compose_cmd_ios spawned_build_flutter [OF compose_cmd_ios])
  next
    case other
    then show ?thesis
      using refused [OF other]
      by (simp add: compose_cmd_other spawned_append)
  qed
  have "''Android'' \<noteq> ''android''" "''Android'' \<noteq> ''ios''"
    "''IOS'' \<noteq> ''android''" "''IOS'' \<noteq> ''ios''"
    "''android '' \<noteq> ''android''" "''android '' \<noteq> ''ios''"
    by simp_all
  with refused [of "''Android''"] refused [of "''IOS''"] refused [of "''android ''"] general
  show ?thesis by blast
qed

text \<open>
  Claim C9, the hypotheses met: the variant \<^verbatim>\<open>iOS\<close> is neither of the two
  platforms, no command is composed for it, and the process ends with status 1.
\<close>

theorem platform_match_exact_witness:
  "(\<not> (\<exists>cmd. fst (compose_cmd ''dev'' ''iOS'' True []) = Inr cmd))
   \<and> ''iOS'' \<noteq> ''android'' \<and> ''iOS'' \<noteq> ''ios''
   \<and> build_flutter (mock_tool 0) ''dev'' ''iOS'' True [] =
       (Inl (SystemExit 1), [Stdout (msg_unsupported @ ''iOS'' @ [CHR 0x0A])])
   \<and> spawned (snd (build_flutter (mock_tool 0) ''dev'' ''iOS'' True [])) = []
   \<and> program (Inr \<lparr>flavor = ''dev'', platform = ''iOS'', debug = False\<rparr>) (mock_tool 0) [] =
       (1, [Stdout (msg_unsupported @ ''iOS'' @ [CHR 0x0A])])"
  using platform_match_exact [of "''dev''" "''iOS''" True "[]" "mock_tool 0" False]
  by simp

text \<open>
  Claim C10. The flavor is not checked. With the empty flavor the command holds
  \<^verbatim>\<open>--flavor\<close>, the empty token and \<^verbatim>\<open>--dart-define=ENV=\<close>, on both
  platforms; with any flavor at all the command is composed and spawned; and with a
  tool that returns 0 the call with the empty flavor returns without an exception.
\<close>

theorem flavor_not_validated:
  "compose_cmd [] ''android'' r w =
     (Inr [''flutter'', ''build'', ''apk'', ''--flavor'', [], ''-t'', ''lib/main.dart'',
           ''--dart-define=ENV='', if r then ''--release'' else ''--debug''], w)
   \<and> compose_cmd [] ''ios'' r w =
     (Inr [''flutter'', ''build'', ''ios'', ''--flavor'', [], ''-t'', ''lib/main.dart'',
           ''--dart-define=ENV='', if r then ''--release'' else ''--debug''], w)
   \<and> spawned (snd (build_flutter t [] ''android'' r w)) =
       spawned w @ [[''flutter'', ''build'', ''apk'', ''--flavor'', [], ''-t'', ''lib/main.dart'',
                     ''--dart-define=ENV='', if r then ''--release'' else ''--debug'']]
   \<and> spawned (snd (build_flutter t [] ''ios'' r w)) =
       spawned w @ [[''flutter'', ''build'', ''ios'', ''--flavor'', [], ''-t'', ''lib/main.dart'',
                     ''--dart-define=ENV='', if r then ''--release'' else ''--debug'']]
   \<and> spawned (snd (build_flutter t f ''android'' r w)) =
       spawned w @ [[''flutter'', ''build'', ''apk'', ''--flavor'', f, ''-t'', ''lib/main.dart'',
                     ''--dart-define=ENV='' @ f, if r then ''--release'' else ''--debug'']]
   \<and> spawned (snd (build_flutter t f ''ios'' r w)) =
       spawned w @ [[''flutter'', ''build'', ''ios'', ''--flavor'', f, ''-t'', ''lib/main.dart'',
                     ''--dart-define=ENV='' @ f, if r then ''--release'' else ''--debug'']]
   \<and> fst (build_flutter (mock_tool 0) [] ''android'' r w) = Inr ()
   \<and> fst (build_flutter (mock_tool 0) [] ''ios'' r w) = Inr ()"
  using compose_cmd_android [of "[]" r w] compose_cmd_ios [of "[]" r w]
    spawned_build_flutter [OF compose_cmd_android, of t f r w]
    spawned_build_flutter [OF compose_cmd_ios, of t f r w]
    spawned_build_flutter [OF compose_cmd_android, of t "[]" r w]
    spawned_build_flutter [OF compose_cmd_ios, of t "[]" r w]
    build_flutter_composed [OF compose_cmd_android, of "mock_tool 0" "[]" r w]
    build_flutter_composed [OF compose_cmd_ios, of "mock_tool 0" "[]" r w]
  by (simp add: mock_tool_def)

end
